theory Spec2Isabelle
  imports Complex_Main "HOL-Library.Sublist" "HOL-Library.AList"
begin

section \<open>Resume screening: scoring and matching pipeline\<close>

text \<open>
  A shallow embedding of \<^verbatim>\<open>backend/services/matching.py\<close>,
  \<^verbatim>\<open>backend/services/embedding.py\<close>, \<^verbatim>\<open>backend/services/scoring.py\<close> and
  \<^verbatim>\<open>backend/config.py\<close>. Python floats are modelled as \<^typ>\<open>real\<close>, Python
  integers as \<^typ>\<open>int\<close>, strings as byte strings (text is taken to be ASCII), and a
  raised exception as the \<open>Inl\<close> side of a sum.
\<close>

subsection \<open>Strings\<close>

definition lower_char :: "char \<Rightarrow> char" where
  "lower_char c =
     (let n = (of_char c :: nat) in if 65 \<le> n \<and> n \<le> 90 then char_of (n + 32) else c)"

text \<open>\<^verbatim>\<open>s.lower()\<close>\<close>

definition lower :: "string \<Rightarrow> string" where
  "lower s = map lower_char s"

text \<open>\<^verbatim>\<open>needle in hay\<close> on strings: \<open>needle\<close> occurs as a contiguous substring.\<close>

fun py_in :: "string \<Rightarrow> string \<Rightarrow> bool" where
  "py_in needle [] = (needle = [])"
| "py_in needle (c # cs) = (prefix needle (c # cs) \<or> py_in needle cs)"

text \<open>\<^verbatim>\<open>' '.join(parts)\<close>\<close>

fun join_space :: "string list \<Rightarrow> string" where
  "join_space [] = []"
| "join_space [p] = p"
| "join_space (p # q # ps) = p @ '' '' @ join_space (q # ps)"

definition is_digit :: "char \<Rightarrow> bool" where
  "is_digit c = (let n = (of_char c :: nat) in 48 \<le> n \<and> n \<le> 57)"

text \<open>The ASCII characters matched by \<^verbatim>\<open>\s\<close> and split on by \<^verbatim>\<open>str.split()\<close>:
  tab, line feed, vertical tab, form feed, carriage return, the four separators
  \<^verbatim>\<open>\x1c\<close> to \<^verbatim>\<open>\x1f\<close>, and space.\<close>

definition is_space :: "char \<Rightarrow> bool" where
  "is_space c = (let n = (of_char c :: nat) in (9 \<le> n \<and> n \<le> 13) \<or> (28 \<le> n \<and> n \<le> 32))"

text \<open>The ASCII characters matched by \<^verbatim>\<open>\w\<close>.\<close>

definition is_word :: "char \<Rightarrow> bool" where
  "is_word c = (let n = (of_char c :: nat)
                in (97 \<le> n \<and> n \<le> 122) \<or> (65 \<le> n \<and> n \<le> 90) \<or> is_digit c \<or> c = CHR ''_'')"

subsection \<open>Fuzzy skill matching (\<^verbatim>\<open>MatchingService._fuzzy_skill_match\<close>)\<close>

text \<open>
  \<^verbatim>\<open>fuzz.ratio\<close> and \<^verbatim>\<open>fuzz.partial_ratio\<close> come from the external library
  \<^verbatim>\<open>rapidfuzz\<close>; the scorer is parametric in them.
\<close>

record fuzz =
  ratio :: "string \<Rightarrow> string \<Rightarrow> real"
  partial_ratio :: "string \<Rightarrow> string \<Rightarrow> real"

text \<open>
  \<^verbatim>\<open>
  for resume_skill in resume_skills:
      if fuzz.ratio(skill, resume_skill) >= threshold: return True
      if fuzz.partial_ratio(skill, resume_skill) >= threshold: return True
  return False
  \<close>
\<close>

fun fuzzy_skill_match :: "fuzz \<Rightarrow> string \<Rightarrow> string list \<Rightarrow> int \<Rightarrow> bool" where
  "fuzzy_skill_match fz skill [] threshold = False"
| "fuzzy_skill_match fz skill (resume_skill # rest) threshold =
     (if ratio fz skill resume_skill \<ge> of_int threshold then True
      else if partial_ratio fz skill resume_skill \<ge> of_int threshold then True
      else fuzzy_skill_match fz skill rest threshold)"

text \<open>
  A concrete instance of the library for evaluating examples. \<open>indel_ratio\<close> is the
  normalised Indel similarity that \<^verbatim>\<open>fuzz.ratio\<close> documents,
  \<open>100 * 2 * lcs / (len a + len b)\<close>; \<open>window_ratio\<close> is the best \<open>indel_ratio\<close> of
  the shorter string against a contiguous piece of the longer one that is no longer than
  the shorter string.
\<close>

fun lcs_len :: "string \<Rightarrow> string \<Rightarrow> nat" where
  "lcs_len [] ys = 0"
| "lcs_len xs [] = 0"
| "lcs_len (x # xs) (y # ys) =
     (if x = y then Suc (lcs_len xs ys) else max (lcs_len xs (y # ys)) (lcs_len (x # xs) ys))"

definition indel_ratio :: "string \<Rightarrow> string \<Rightarrow> real" where
  "indel_ratio a b =
     (if a = [] \<and> b = [] then 100
      else 100 * real (2 * lcs_len a b) / real (length a + length b))"

definition pieces :: "nat \<Rightarrow> string \<Rightarrow> string list" where
  "pieces m s = concat (map (\<lambda>t. filter (\<lambda>p. p \<noteq> [] \<and> length p \<le> m) (prefixes t)) (suffixes s))"

definition window_ratio :: "string \<Rightarrow> string \<Rightarrow> real" where
  "window_ratio a b =
     (if a = [] \<and> b = [] then 100
      else if a = [] \<or> b = [] then 0
      else let (short, long) = (if length a \<le> length b then (a, b) else (b, a))
           in fold max (map (indel_ratio short) (pieces (length short) long)) 0)"

definition indel_fuzz :: fuzz where
  "indel_fuzz = \<lparr> ratio = indel_ratio, partial_ratio = window_ratio \<rparr>"

subsection \<open>Records exchanged with the caller\<close>

text \<open>An entry of the resume's \<^verbatim>\<open>education\<close> list: a dict with optional keys
  \<^verbatim>\<open>degree\<close> and \<^verbatim>\<open>context\<close>, or some value that is not a dict.\<close>

datatype edu_entry = EduDict "string option" "string option" | EduOther

text \<open>The keys of the resume dict that the scorers read. \<^verbatim>\<open>embeddings\<close> is
  \<open>None\<close> when the key is absent or holds \<^verbatim>\<open>None\<close>.\<close>

record resume =
  resume_id :: string
  skills :: "string list"
  education :: "edu_entry list"
  certifications :: "string list"
  raw_text :: string
  processed_text :: string
  embeddings :: "real list option"

text \<open>The keys of the job dict that the scorers read. \<open>min_experience\<close> and
  \<open>max_experience\<close> are \<open>None\<close> when the key is absent.\<close>

record job_desc =
  job_id :: string
  required_skills :: "string list"
  optional_skills :: "string list"
  min_experience :: "int option"
  max_experience :: "int option"
  education_requirements :: "string list"
  certifications_required :: "string list"
  job_raw_text :: string
  job_processed_text :: string
  job_embeddings :: "real list option"

subsection \<open>Hard match, part 1: skills (\<^verbatim>\<open>calculate_hard_match\<close>, lines 34 to 65)\<close>

text \<open>
  \<^verbatim>\<open>
  for skill in required_skills:
      if self._fuzzy_skill_match(skill, resume_skills): matched_required.append(skill)
      else: missing_required.append(skill)
  \<close>
  The state of the loop is the pair of lists (matched, missing).
\<close>

fun match_loop ::
  "fuzz \<Rightarrow> int \<Rightarrow> string list \<Rightarrow> string list \<Rightarrow> string list \<times> string list
     \<Rightarrow> string list \<times> string list" where
  "match_loop fz threshold resume_skills [] acc = acc"
| "match_loop fz threshold resume_skills (skill # rest) (matched, missing) =
     (if fuzzy_skill_match fz skill resume_skills threshold
      then match_loop fz threshold resume_skills rest (matched @ [skill], missing)
      else match_loop fz threshold resume_skills rest (matched, missing @ [skill]))"

text \<open>
  \<^verbatim>\<open>
  for skill in optional_skills:
      if self._fuzzy_skill_match(skill, resume_skills): matched_optional.append(skill)
  \<close>
\<close>

fun match_optional_loop :: "fuzz \<Rightarrow> string list \<Rightarrow> string list \<Rightarrow> string list \<Rightarrow> string list" where
  "match_optional_loop fz resume_skills [] matched = matched"
| "match_optional_loop fz resume_skills (skill # rest) matched =
     (if fuzzy_skill_match fz skill resume_skills 80
      then match_optional_loop fz resume_skills rest (matched @ [skill])
      else match_optional_loop fz resume_skills rest matched)"

record skills_result =
  skills_match :: real
  matched_skills :: "string list"
  missing_skills :: "string list"

definition skills_section :: "fuzz \<Rightarrow> resume \<Rightarrow> job_desc \<Rightarrow> skills_result" where
  "skills_section fz res job =
     (let resume_skills = map lower (skills res);
          required = map lower (required_skills job);
          optional = map lower (optional_skills job);
          (matched_required, missing_required) = match_loop fz 80 resume_skills required ([], []);
          matched_optional = match_optional_loop fz resume_skills optional [];
          required_score = (if required \<noteq> []
                            then (real (length matched_required) / real (length required)) * 70
                            else 70);
          optional_score = (if optional \<noteq> []
                            then (real (length matched_optional) / real (length optional)) * 30
                            else 30)
      in \<lparr> skills_match = required_score + optional_score,
           matched_skills = matched_required @ matched_optional,
           missing_skills = missing_required \<rparr>)"

subsection \<open>Regular expressions as used by \<^verbatim>\<open>_extract_experience_years\<close>\<close>

text \<open>
  The fragment of Python's \<^verbatim>\<open>re\<close> syntax that the three experience patterns use,
  matched under \<^verbatim>\<open>re.IGNORECASE\<close>: a literal, a character class, sequencing, the
  greedy option \<^verbatim>\<open>?\<close>, and the greedy repetitions \<^verbatim>\<open>*\<close> and \<^verbatim>\<open>+\<close> of a
  character class.
\<close>

datatype rx =
    Lit string
  | Seq rx rx
  | Opt rx
  | Star "char \<Rightarrow> bool"
  | Plus "char \<Rightarrow> bool"

text \<open>
  \<open>rx_match r s\<close> lists the remainders of \<open>s\<close> after every way of matching \<open>r\<close> at
  the start of \<open>s\<close>, in the order in which a backtracking matcher tries them: a greedy
  repetition tries the longest run first, a greedy option tries the present branch first.
\<close>

fun rx_match :: "rx \<Rightarrow> string \<Rightarrow> string list" where
  "rx_match (Lit l) s =
     (if lower (take (length l) s) = lower l \<and> length l \<le> length s then [drop (length l) s] else [])"
| "rx_match (Seq a b) s = concat (map (rx_match b) (rx_match a s))"
| "rx_match (Opt a) s = rx_match a s @ [s]"
| "rx_match (Star cls) s = map (\<lambda>k. drop k s) (rev [0 ..< Suc (length (takeWhile cls s))])"
| "rx_match (Plus cls) s = map (\<lambda>k. drop k s) (rev [1 ..< Suc (length (takeWhile cls s))])"

text \<open>A pattern with one capture group: what precedes the group, the group, what follows.\<close>

record pattern =
  before :: rx
  group1 :: rx
  after :: rx

text \<open>The text captured by group 1 in the first successful match of the pattern at the
  start of \<open>s\<close>, if there is one.\<close>

definition match_here :: "pattern \<Rightarrow> string \<Rightarrow> string option" where
  "match_here p s =
     (case concat (map (\<lambda>r1. concat (map (\<lambda>r2. if rx_match (after p) r2 \<noteq> []
                                                then [take (length r1 - length r2) r1] else [])
                                      (rx_match (group1 p) r1)))
                       (rx_match (before p) s))
      of [] \<Rightarrow> None | g # _ \<Rightarrow> Some g)"

text \<open>\<^verbatim>\<open>re.search(pattern, text, re.IGNORECASE)\<close> followed by \<^verbatim>\<open>match.group(1)\<close>:
  the leftmost position at which the pattern matches.\<close>

fun re_search :: "pattern \<Rightarrow> string \<Rightarrow> string option" where
  "re_search p [] = match_here p []"
| "re_search p (c # cs) =
     (case match_here p (c # cs) of Some g \<Rightarrow> Some g | None \<Rightarrow> re_search p cs)"

definition plus_or_space :: "char \<Rightarrow> bool" where
  "plus_or_space c = (c = CHR ''+'' \<or> is_space c)"

definition colon_or_space :: "char \<Rightarrow> bool" where
  "colon_or_space c = (c = CHR '':'' \<or> is_space c)"

text \<open>\<^verbatim>\<open>(\d+)[\+\s]*years?\s+(?:of\s+)?experience\<close>\<close>

definition pattern1 :: pattern where
  "pattern1 = \<lparr> before = Lit [], group1 = Plus is_digit,
       after = Seq (Star plus_or_space) (Seq (Lit ''year'') (Seq (Opt (Lit ''s''))
                 (Seq (Plus is_space) (Seq (Opt (Seq (Lit ''of'') (Plus is_space)))
                   (Lit ''experience''))))) \<rparr>"

text \<open>\<^verbatim>\<open>experience[:\s]+(\d+)[\+\s]*years?\<close>\<close>

definition pattern2 :: pattern where
  "pattern2 = \<lparr> before = Seq (Lit ''experience'') (Plus colon_or_space), group1 = Plus is_digit,
       after = Seq (Star plus_or_space) (Seq (Lit ''year'') (Opt (Lit ''s''))) \<rparr>"

text \<open>\<^verbatim>\<open>(\d+)[\+\s]*years?\s+working\<close>\<close>

definition pattern3 :: pattern where
  "pattern3 = \<lparr> before = Lit [], group1 = Plus is_digit,
       after = Seq (Star plus_or_space) (Seq (Lit ''year'') (Seq (Opt (Lit ''s''))
                 (Seq (Plus is_space) (Lit ''working'')))) \<rparr>"

text \<open>\<^verbatim>\<open>int(digits)\<close> on a string of decimal digits.\<close>

definition digit_val :: "char \<Rightarrow> int" where
  "digit_val c = int (of_char c) - 48"

definition py_int :: "string \<Rightarrow> int" where
  "py_int ds = foldl (\<lambda>n c. 10 * n + digit_val c) 0 ds"

text \<open>\<^verbatim>\<open>re.findall(r'20\d{2}', text)\<close>: the matches found scanning from the left, each
  search resuming after the previous match.\<close>

fun year_mentions :: "string \<Rightarrow> string list" where
  "year_mentions (a # b # c # d # rest) =
     (if a = CHR ''2'' \<and> b = CHR ''0'' \<and> is_digit c \<and> is_digit d
      then [a, b, c, d] # year_mentions rest
      else year_mentions (b # c # d # rest))"
| "year_mentions _ = []"

text \<open>
  \<^verbatim>\<open>
  for pattern in patterns:
      match = re.search(pattern, text, re.IGNORECASE)
      if match: return int(match.group(1))
  year_mentions = re.findall(r'20\d{2}', text)
  if len(year_mentions) >= 2:
      years = sorted([int(y) for y in year_mentions])
      return years[-1] - years[0]
  return 0
  \<close>
\<close>

fun first_pattern :: "pattern list \<Rightarrow> string \<Rightarrow> int option" where
  "first_pattern [] text = None"
| "first_pattern (p # ps) text =
     (case re_search p text of Some g \<Rightarrow> Some (py_int g) | None \<Rightarrow> first_pattern ps text)"

definition extract_experience_years :: "string \<Rightarrow> int" where
  "extract_experience_years text =
     (case first_pattern [pattern1, pattern2, pattern3] text of
        Some n \<Rightarrow> n
      | None \<Rightarrow>
          (let mentions = year_mentions text
           in if length mentions \<ge> 2
              then (let years = sort (map py_int mentions) in last years - hd years)
              else 0))"

subsection \<open>Hard match, part 2: experience (\<^verbatim>\<open>calculate_hard_match\<close>, lines 67 to 85)\<close>

text \<open>The experience score with the two entries of \<^verbatim>\<open>scores['details']\<close>;
  \<open>required_experience\<close> is the pair that the source renders as the string
  \<^verbatim>\<open>f"{min_exp}-{max_exp} years"\<close>.\<close>

record experience_result =
  experience_match :: real
  resume_experience :: int
  required_experience :: "int \<times> int"

definition experience_section :: "resume \<Rightarrow> job_desc \<Rightarrow> experience_result" where
  "experience_section res job =
     (let min_exp = (case min_experience job of Some m \<Rightarrow> m | None \<Rightarrow> 0);
          max_exp = (case max_experience job of Some m \<Rightarrow> m
                     | None \<Rightarrow> (if min_exp \<ge> 0 then min_exp + 10 else 10));
          resume_exp = extract_experience_years (raw_text res);
          score = (if resume_exp \<ge> min_exp
                   then (if resume_exp \<le> max_exp then 100 else 80)
                   else (if min_exp > 0 then (real_of_int resume_exp / real_of_int min_exp) * 100
                         else 100))
      in \<lparr> experience_match = score, resume_experience = resume_exp,
           required_experience = (min_exp, max_exp) \<rparr>)"

subsection \<open>Hard match, part 3: education (\<^verbatim>\<open>_match_education\<close> and lines 87 to 95)\<close>

text \<open>
  \<^verbatim>\<open>
  for edu in resume_education:
      if isinstance(edu, dict):
          resume_degrees.append(edu.get('degree', '').lower())
          resume_degrees.append(edu.get('context', '').lower())
  \<close>
\<close>

fun resume_degrees :: "edu_entry list \<Rightarrow> string list" where
  "resume_degrees [] = []"
| "resume_degrees (EduDict degree context # rest) =
     lower (case degree of Some d \<Rightarrow> d | None \<Rightarrow> [])
       # lower (case context of Some c \<Rightarrow> c | None \<Rightarrow> [])
       # resume_degrees rest"
| "resume_degrees (EduOther # rest) = resume_degrees rest"

text \<open>
  \<^verbatim>\<open>
  matches = 0
  for requirement in job_requirements:
      if requirement.lower() in resume_text: matches += 1
  \<close>
\<close>

fun count_matches :: "string \<Rightarrow> string list \<Rightarrow> nat \<Rightarrow> nat" where
  "count_matches resume_text [] matches = matches"
| "count_matches resume_text (requirement # rest) matches =
     (if py_in (lower requirement) resume_text
      then count_matches resume_text rest (matches + 1)
      else count_matches resume_text rest matches)"

definition match_education :: "edu_entry list \<Rightarrow> string list \<Rightarrow> real" where
  "match_education resume_education job_requirements =
     (if job_requirements = [] then 1
      else let resume_text = join_space (resume_degrees resume_education);
               matches = count_matches resume_text job_requirements 0
           in real matches / real (length job_requirements))"

definition education_section :: "resume \<Rightarrow> job_desc \<Rightarrow> real" where
  "education_section res job =
     (let job_education = education_requirements job;
          resume_education = education res
      in if job_education \<noteq> [] \<and> resume_education \<noteq> []
         then match_education resume_education job_education * 100
         else 100)"

subsection \<open>Hard match, part 4 and 5: certifications and the weighted total\<close>

record cert_result =
  certification_match :: real
  matched_certifications :: "string list"
  missing_certifications :: "string list"

definition certification_section :: "fuzz \<Rightarrow> resume \<Rightarrow> job_desc \<Rightarrow> cert_result" where
  "certification_section fz res job =
     (let resume_certs = map lower (certifications res);
          required_certs = map lower (certifications_required job);
          (matched_certs, missing_certs) = match_loop fz 70 resume_certs required_certs ([], [])
      in \<lparr> certification_match =
             (if required_certs \<noteq> []
              then (real (length matched_certs) / real (length required_certs)) * 100
              else 100),
           matched_certifications = matched_certs,
           missing_certifications = missing_certs \<rparr>)"

record hard_match =
  hm_skills :: skills_result
  hm_experience :: experience_result
  hm_education_match :: real
  hm_certifications :: cert_result
  overall_hard_match :: real

definition calculate_hard_match :: "fuzz \<Rightarrow> resume \<Rightarrow> job_desc \<Rightarrow> hard_match" where
  "calculate_hard_match fz res job =
     (let sk = skills_section fz res job;
          ex = experience_section res job;
          ed = education_section res job;
          ce = certification_section fz res job;
          overall_score = skills_match sk * 0.5 + experience_match ex * 0.3
                          + ed * 0.15 + certification_match ce * 0.05
      in \<lparr> hm_skills = sk, hm_experience = ex, hm_education_match = ed,
           hm_certifications = ce, overall_hard_match = overall_score \<rparr>)"

subsection \<open>Vectors (\<^verbatim>\<open>numpy\<close>)\<close>

datatype error = ValueError | IndexError

text \<open>\<^verbatim>\<open>np.linalg.norm(v)\<close>\<close>

definition vec_norm :: "real list \<Rightarrow> real" where
  "vec_norm v = sqrt (sum_list (map (\<lambda>x. x * x) v))"

text \<open>\<^verbatim>\<open>np.dot(v1, v2)\<close> on one-dimensional arrays raises \<^verbatim>\<open>ValueError\<close> when the
  shapes differ.\<close>

definition np_dot :: "real list \<Rightarrow> real list \<Rightarrow> error + real" where
  "np_dot v1 v2 =
     (if length v1 \<noteq> length v2 then Inl ValueError
      else Inr (sum_list (map (\<lambda>(x, y). x * y) (zip v1 v2))))"

subsection \<open>Embedding service (\<^verbatim>\<open>EmbeddingService\<close>)\<close>

text \<open>The sentence encoder is an external pretrained model: \<open>encode\<close> is
  \<^verbatim>\<open>model.encode(text, normalize_embeddings=True)\<close> and \<open>dim\<close> its dimension.\<close>

record encoder =
  encode :: "string \<Rightarrow> real list"
  dim :: nat

definition generate_embeddings :: "encoder \<Rightarrow> string \<Rightarrow> real list" where
  "generate_embeddings enc text = (if text = [] then replicate (dim enc) 0 else encode enc text)"

text \<open>
  \<^verbatim>\<open>
  if np.linalg.norm(v1) == 0 or np.linalg.norm(v2) == 0: return 0.0
  cosine = float(np.dot(v1, v2) / (np.linalg.norm(v1) * np.linalg.norm(v2)))
  return cosine * 100.0
  \<close>
\<close>

definition calculate_similarity :: "real list \<Rightarrow> real list \<Rightarrow> error + real" where
  "calculate_similarity v1 v2 =
     (if vec_norm v1 = 0 \<or> vec_norm v2 = 0 then Inr 0
      else case np_dot v1 v2 of
             Inl e \<Rightarrow> Inl e
           | Inr d \<Rightarrow> Inr ((d / (vec_norm v1 * vec_norm v2)) * 100))"

subsection \<open>Soft match (\<^verbatim>\<open>MatchingService.calculate_soft_match\<close>)\<close>

text \<open>\<^verbatim>\<open>MatchingService._cosine_similarity\<close>: the dot product is taken before the norms
  are tested.\<close>

definition cosine_similarity :: "real list \<Rightarrow> real list \<Rightarrow> error + real" where
  "cosine_similarity vec1 vec2 =
     (case np_dot vec1 vec2 of
        Inl e \<Rightarrow> Inl e
      | Inr dot_product \<Rightarrow>
          (let norm1 = vec_norm vec1; norm2 = vec_norm vec2
           in if norm1 = 0 \<or> norm2 = 0 then Inr 0
              else Inr (dot_product / (norm1 * norm2))))"

text \<open>\<^verbatim>\<open>text.split()\<close>: the maximal runs of characters that are not whitespace.
  \<open>cur\<close> is the run being read.\<close>

fun split_acc :: "string \<Rightarrow> string \<Rightarrow> string list" where
  "split_acc cur [] = (if cur = [] then [] else [cur])"
| "split_acc cur (c # cs) =
     (if is_space c then (if cur = [] then split_acc [] cs else cur # split_acc [] cs)
      else split_acc (cur @ [c]) cs)"

definition py_split :: "string \<Rightarrow> string list" where
  "py_split s = split_acc [] s"

text \<open>\<^verbatim>\<open>list(dict.fromkeys(keywords))\<close>: the first occurrence of each element, in order.\<close>

fun fromkeys :: "string list \<Rightarrow> string list \<Rightarrow> string list" where
  "fromkeys seen [] = []"
| "fromkeys seen (k # ks) =
     (if k \<in> set seen then fromkeys seen ks else k # fromkeys (k # seen) ks)"

definition stop_words :: "string list" where
  "stop_words = [''the'', ''is'', ''at'', ''which'', ''on'', ''and'', ''a'', ''an'', ''as'', ''are'',
                 ''was'', ''were'', ''be'', ''been'', ''being'', ''have'', ''has'', ''had'', ''do'',
                 ''does'', ''did'', ''will'', ''would'', ''could'', ''should'', ''may'', ''might'']"

text \<open>
  \<^verbatim>\<open>
  words = text.lower().split()
  for word in words:
      word = re.sub(r'[^\w\s]', '', word)
      if len(word) > 3 and word not in stop_words: keywords.append(word)
  return list(dict.fromkeys(keywords))[:top_n]
  \<close>
\<close>

fun keyword_loop :: "string list \<Rightarrow> string list \<Rightarrow> string list" where
  "keyword_loop [] keywords = keywords"
| "keyword_loop (word # rest) keywords =
     (let word' = filter (\<lambda>c. is_word c \<or> is_space c) word
      in if length word' > 3 \<and> word' \<notin> set stop_words
         then keyword_loop rest (keywords @ [word'])
         else keyword_loop rest keywords)"

definition extract_keywords :: "string \<Rightarrow> nat \<Rightarrow> string list" where
  "extract_keywords text top_n = take top_n (fromkeys [] (keyword_loop (py_split (lower text)) []))"

record soft_match =
  tfidf_similarity :: real
  embedding_similarity :: real
  keyword_density :: real
  overall_soft_match :: real

text \<open>
  The TF-IDF vectoriser and its cosine belong to the external library \<^verbatim>\<open>sklearn\<close>:
  \<open>tfidf resume_text job_text\<close> is \<open>Some\<close> of the cosine of the two fitted vectors, or
  \<open>None\<close> when the library raises (which the scorer catches and scores as 0).
\<close>

definition calculate_soft_match ::
  "(string \<Rightarrow> string \<Rightarrow> real option) \<Rightarrow> string \<Rightarrow> string \<Rightarrow> real list option \<Rightarrow> real list option
     \<Rightarrow> error + soft_match" where
  "calculate_soft_match tfidf resume_text job_text resume_embedding job_embedding =
     (let tfidf_sim = (case tfidf resume_text job_text of Some similarity \<Rightarrow> similarity * 100
                       | None \<Rightarrow> 0);
          embedding_res = (case (resume_embedding, job_embedding) of
                             (Some e1, Some e2) \<Rightarrow>
                               (case cosine_similarity e1 e2 of
                                  Inl e \<Rightarrow> Inl e
                                | Inr embedding_sim \<Rightarrow> Inr (embedding_sim * 100))
                           | _ \<Rightarrow> Inr 0);
          job_keywords = extract_keywords job_text 20;
          keyword_matches = length (filter (\<lambda>keyword. py_in keyword (lower resume_text)) job_keywords);
          density = (if job_keywords \<noteq> []
                     then (real keyword_matches / real (length job_keywords)) * 100 else 0)
      in case embedding_res of
           Inl e \<Rightarrow> Inl e
         | Inr embedding_sim \<Rightarrow>
             Inr \<lparr> tfidf_similarity = tfidf_sim, embedding_similarity = embedding_sim,
                   keyword_density = density,
                   overall_soft_match = tfidf_sim * 0.3 + embedding_sim * 0.5 + density * 0.2 \<rparr>)"

subsection \<open>Configuration (\<^verbatim>\<open>Config\<close>)\<close>

record config =
  HARD_MATCH_WEIGHT :: real
  SOFT_MATCH_WEIGHT :: real
  HIGH_THRESHOLD :: real
  MEDIUM_THRESHOLD :: real

text \<open>The values used when the environment sets none.\<close>

definition default_config :: config where
  "default_config = \<lparr> HARD_MATCH_WEIGHT = 0.4, SOFT_MATCH_WEIGHT = 0.6,
                       HIGH_THRESHOLD = 75, MEDIUM_THRESHOLD = 50 \<rparr>"

subsection \<open>Score fusion and verdict (\<^verbatim>\<open>ScoringEngine.evaluate_resume\<close>)\<close>

datatype verdict = HIGH | MEDIUM | LOW

text \<open>\<^verbatim>\<open>round(x, 2)\<close>: the nearest multiple of 0.01, a tie going to the even one.\<close>

definition round_half_even :: "real \<Rightarrow> int" where
  "round_half_even x =
     (let f = \<lfloor>x\<rfloor>; d = x - real_of_int f
      in if d < 1 / 2 then f else if d > 1 / 2 then f + 1 else if even f then f else f + 1)"

definition round2 :: "real \<Rightarrow> real" where
  "round2 x = real_of_int (round_half_even (x * 100)) / 100"

text \<open>
  \<^verbatim>\<open>
  relevance_score = (hard_score * w_hard) + (soft_score * w_soft)
  if relevance_score > 100: relevance_score = 100.0
  if relevance_score < 0: relevance_score = 0.0
  \<close>
\<close>

definition combine :: "config \<Rightarrow> real \<Rightarrow> real \<Rightarrow> real" where
  "combine cfg hard_score soft_score =
     (let relevance_score = (hard_score * HARD_MATCH_WEIGHT cfg) + (soft_score * SOFT_MATCH_WEIGHT cfg);
          relevance_score = (if relevance_score > 100 then 100 else relevance_score);
          relevance_score = (if relevance_score < 0 then 0 else relevance_score)
      in relevance_score)"

text \<open>
  \<^verbatim>\<open>
  if relevance_score >= Config.HIGH_THRESHOLD: evaluation['verdict'] = 'HIGH'
  elif relevance_score >= Config.MEDIUM_THRESHOLD: evaluation['verdict'] = 'MEDIUM'
  else: evaluation['verdict'] = 'LOW'
  \<close>
\<close>

definition determine_verdict :: "config \<Rightarrow> real \<Rightarrow> verdict" where
  "determine_verdict cfg relevance_score =
     (if relevance_score \<ge> HIGH_THRESHOLD cfg then HIGH
      else if relevance_score \<ge> MEDIUM_THRESHOLD cfg then MEDIUM
      else LOW)"

text \<open>\<^verbatim>\<open>', '.join(parts)\<close>\<close>

fun join_comma :: "string list \<Rightarrow> string" where
  "join_comma [] = []"
| "join_comma [p] = p"
| "join_comma (p # q # ps) = p @ '', '' @ join_comma (q # ps)"

record feedback =
  strengths :: "string list"
  improvements :: "string list"
  suggestions :: "string list"

definition generate_feedback :: "string list \<Rightarrow> string list \<Rightarrow> feedback" where
  "generate_feedback matched missing =
     \<lparr> strengths = (if matched \<noteq> [] then [''Matched skills: '' @ join_comma (take 6 matched)] else []),
       improvements = (if missing \<noteq> [] then [''Missing key skills: '' @ join_comma (take 6 missing)]
                       else []),
       suggestions = (if missing \<noteq> []
                      then [''Consider projects or a micro-course to demonstrate these skills.'']
                      else []) \<rparr>"

record evaluation =
  ev_resume_id :: string
  ev_job_id :: string
  relevance_score :: real
  hard_match_score :: real
  soft_match_score :: real
  ev_matched_skills :: "string list"
  ev_missing_skills :: "string list"
  experience_details :: experience_result
  ev_verdict :: verdict
  ev_feedback :: feedback

text \<open>\<^verbatim>\<open>resume.get('embeddings') or generate_embeddings(resume.get('processed_text', ''))\<close>:
  an absent or empty embedding is replaced by a generated one.\<close>

definition embedding_or_generate :: "encoder \<Rightarrow> real list option \<Rightarrow> string \<Rightarrow> real list" where
  "embedding_or_generate enc emb text =
     (case emb of Some e \<Rightarrow> (if e \<noteq> [] then e else generate_embeddings enc text)
      | None \<Rightarrow> generate_embeddings enc text)"

text \<open>The soft score of an evaluation (lines 26 to 29).\<close>

definition soft_score_of :: "encoder \<Rightarrow> resume \<Rightarrow> job_desc \<Rightarrow> error + real" where
  "soft_score_of enc res job =
     (let resume_embedding = embedding_or_generate enc (embeddings res) (processed_text res);
          job_embedding = embedding_or_generate enc (job_embeddings job) (job_processed_text job)
      in calculate_similarity resume_embedding job_embedding)"

definition evaluate_resume ::
  "encoder \<Rightarrow> fuzz \<Rightarrow> config \<Rightarrow> resume \<Rightarrow> job_desc \<Rightarrow> error + evaluation" where
  "evaluate_resume enc fz cfg res job =
     (let hard_match_results = calculate_hard_match fz res job
      in case soft_score_of enc res job of
           Inl e \<Rightarrow> Inl e
         | Inr soft_score \<Rightarrow>
             (let hard_score = overall_hard_match hard_match_results;
                  relevance = combine cfg hard_score soft_score;
                  matched = matched_skills (hm_skills hard_match_results);
                  missing = missing_skills (hm_skills hard_match_results)
              in Inr \<lparr> ev_resume_id = resume_id res,
                       ev_job_id = job_id job,
                       relevance_score = round2 relevance,
                       hard_match_score = round2 hard_score,
                       soft_match_score = round2 soft_score,
                       ev_matched_skills = matched,
                       ev_missing_skills = missing,
                       experience_details = hm_experience hard_match_results,
                       ev_verdict = determine_verdict cfg relevance,
                       ev_feedback = generate_feedback matched missing \<rparr>))"

subsection \<open>Vector index (\<^verbatim>\<open>EmbeddingService.store_resume_embedding\<close>)\<close>

text \<open>
  The index is a \<^verbatim>\<open>faiss.IndexIDMap\<close> over a flat index, an external library: it holds
  the (id, vector) pairs added so far, \<^verbatim>\<open>ntotal\<close> is their number, and
  \<^verbatim>\<open>add_with_ids\<close> appends a pair without looking for the id among those present.
  \<open>raises\<close> says that this call of the library raises; the index is then unchanged.
\<close>

type_synonym index = "(int \<times> real list) list"

definition ntotal :: "index \<Rightarrow> nat" where
  "ntotal idx = length idx"

definition add_with_ids :: "bool \<Rightarrow> index \<Rightarrow> real list \<Rightarrow> int \<Rightarrow> error + index" where
  "add_with_ids raises idx v i = (if raises then Inl IndexError else Inr (idx @ [(i, v)]))"

record meta_entry =
  record_id :: string
  metadata :: "(string \<times> string) list"

text \<open>The metadata dict, keyed by \<^verbatim>\<open>str(id_int)\<close> (the key is kept as the integer):
  an association list in insertion order, \<^verbatim>\<open>len(meta)\<close> its length.\<close>

type_synonym meta = "(int \<times> meta_entry) list"

record store =
  resume_index :: index
  resume_meta :: meta

text \<open>\<^verbatim>\<open>_rebuild_index_from_meta\<close>: its body is \<^verbatim>\<open>pass\<close>.\<close>

definition rebuild_index_from_meta :: "index \<Rightarrow> meta \<Rightarrow> index" where
  "rebuild_index_from_meta idx m = idx"

text \<open>
  \<open>str_to_id\<close> is \<^verbatim>\<open>_str_to_id\<close>, the first 15 hex digits of the MD5 digest (external
  \<^verbatim>\<open>hashlib\<close>). \<open>raises1\<close> and \<open>raises2\<close> say whether the first call of
  \<^verbatim>\<open>add_with_ids\<close> and the one in the handler raise. The result is the store after the
  call and the value returned or the exception that escapes.
\<close>

definition store_resume_embedding ::
  "encoder \<Rightarrow> (string \<Rightarrow> int) \<Rightarrow> bool \<Rightarrow> bool \<Rightarrow> store \<Rightarrow> string \<Rightarrow> string
     \<Rightarrow> (string \<times> string) list \<Rightarrow> store \<times> (error + real list)" where
  "store_resume_embedding enc str_to_id raises1 raises2 st rid text md =
     (let embedding = generate_embeddings enc text;
          id_int = str_to_id rid;
          added = (case add_with_ids raises1 (resume_index st) embedding id_int of
                     Inr idx \<Rightarrow> Inr idx
                   | Inl e \<Rightarrow>
                       add_with_ids raises2
                         (rebuild_index_from_meta (resume_index st) (resume_meta st)) embedding id_int)
      in case added of
           Inl e \<Rightarrow> (st, Inl e)
         | Inr idx \<Rightarrow>
             (st \<lparr> resume_index := idx,
                   resume_meta := AList.update id_int \<lparr> record_id = rid, metadata = md \<rparr>
                                    (resume_meta st) \<rparr>,
              Inr embedding))"

subsection \<open>The specification's reading of the skills score\<close>

text \<open>The fraction of the wanted skills that fuzzy-match one of the resume's skills
  (threshold 80, both sides lowercased), as the specification words it.\<close>

definition spec_fraction_matched :: "fuzz \<Rightarrow> resume \<Rightarrow> string list \<Rightarrow> real" where
  "spec_fraction_matched fz res wanted =
     real (length (filter (\<lambda>s. fuzzy_skill_match fz (lower s) (map lower (skills res)) 80) wanted))
       / real (length wanted)"

text \<open>Required coverage times 70 plus optional coverage times 30; an empty list earns
  its full share.\<close>

definition spec_skills_match :: "fuzz \<Rightarrow> resume \<Rightarrow> job_desc \<Rightarrow> real" where
  "spec_skills_match fz res job =
     (if required_skills job = [] then 70
      else spec_fraction_matched fz res (required_skills job) * 70)
   + (if optional_skills job = [] then 30
      else spec_fraction_matched fz res (optional_skills job) * 30)"

subsection \<open>Example inputs\<close>

definition blank_resume :: resume where
  "blank_resume = \<lparr> resume_id = [], skills = [], education = [], certifications = [],
                     raw_text = [], processed_text = [], embeddings = None \<rparr>"

definition blank_job :: job_desc where
  "blank_job = \<lparr> job_id = [], required_skills = [], optional_skills = [],
                  min_experience = None, max_experience = None, education_requirements = [],
                  certifications_required = [], job_raw_text = [], job_processed_text = [],
                  job_embeddings = None \<rparr>"

text \<open>The scenario of the specification: the job requires python and sql and would like
  docker, the resume lists Python and AWS.\<close>

definition scenario_resume :: resume where
  "scenario_resume = blank_resume \<lparr> skills := [''Python'', ''AWS''] \<rparr>"

definition scenario_job :: job_desc where
  "scenario_job = blank_job \<lparr> required_skills := [''python'', ''sql''],
                               optional_skills := [''docker''] \<rparr>"

subsection \<open>The specification's reading of the education score\<close>

text \<open>The concatenation of the resume's lowercased degree and context strings.\<close>

definition spec_education_text :: "resume \<Rightarrow> string" where
  "spec_education_text res = join_space (resume_degrees (education res))"

text \<open>The job's education requirements that occur, lowercased, as a contiguous
  substring of that text.\<close>

definition spec_education_found :: "resume \<Rightarrow> job_desc \<Rightarrow> string list" where
  "spec_education_found res job =
     filter (\<lambda>r. sublist (lower r) (spec_education_text res)) (education_requirements job)"

subsection \<open>More example inputs\<close>

definition degree_job :: job_desc where
  "degree_job = blank_job \<lparr> education_requirements := [''Bachelor''] \<rparr>"

definition btech_resume :: resume where
  "btech_resume =
     blank_resume \<lparr> education := [EduDict (Some ''B.Tech'') (Some ''B.Tech in CS'')] \<rparr>"

definition btech_or_phd_job :: job_desc where
  "btech_or_phd_job = blank_job \<lparr> education_requirements := [''b.tech'', ''PhD''] \<rparr>"

definition years_resume :: resume where
  "years_resume = blank_resume \<lparr> raw_text := ''Developer 2005 - 2020'' \<rparr>"

definition five_years_resume :: resume where
  "five_years_resume = blank_resume \<lparr> raw_text := ''5+ years of experience in Java'' \<rparr>"

definition one_year_resume :: resume where
  "one_year_resume = blank_resume \<lparr> raw_text := ''Experience: 1 year'' \<rparr>"

definition junior_job :: job_desc where
  "junior_job = blank_job \<lparr> min_experience := Some 0 \<rparr>"

definition capped_junior_job :: job_desc where
  "capped_junior_job = blank_job \<lparr> min_experience := Some 0, max_experience := Some 3 \<rparr>"

definition senior_job :: job_desc where
  "senior_job = blank_job \<lparr> min_experience := Some 4, max_experience := Some 8 \<rparr>"

definition empty_store :: store where
  "empty_store = \<lparr> resume_index = [], resume_meta = [] \<rparr>"

subsection \<open>The specification's clamp, and inputs for the fusion engine\<close>

text \<open>\<open>clamp(x, lo, hi)\<close>\<close>

definition spec_clamp :: "real \<Rightarrow> real \<Rightarrow> real \<Rightarrow> real" where
  "spec_clamp x lo hi = max lo (min hi x)"

text \<open>An encoder that sends every text to the first unit vector of the plane.\<close>

definition unit_encoder :: encoder where
  "unit_encoder = \<lparr> encode = (\<lambda>text. [1, 0]), dim = 2 \<rparr>"

text \<open>A call of the vectoriser that raises, as it does on two empty documents, whose
  vocabulary is empty.\<close>

definition tfidf_raises :: "string \<Rightarrow> string \<Rightarrow> real option" where
  "tfidf_raises resume_text job_text = None"

definition aligned_resume :: resume where
  "aligned_resume = blank_resume \<lparr> embeddings := Some [1, 0] \<rparr>"

definition aligned_job :: job_desc where
  "aligned_job = blank_job \<lparr> job_embeddings := Some [1, 0] \<rparr>"

definition boundary_resume :: resume where
  "boundary_resume = blank_resume \<lparr> embeddings := Some [7, 9, 3, 2, 1] \<rparr>"

definition axis_job :: job_desc where
  "axis_job = blank_job \<lparr> job_embeddings := Some [1, 0, 0, 0, 0] \<rparr>"

definition near_resume :: resume where
  "near_resume = blank_resume \<lparr> embeddings := Some [4872, 6785] \<rparr>"

text \<open>A configuration whose weights do not sum to 1.\<close>

definition light_config :: config where
  "light_config = \<lparr> HARD_MATCH_WEIGHT = 0.1, SOFT_MATCH_WEIGHT = 0.1,
                     HIGH_THRESHOLD = 75, MEDIUM_THRESHOLD = 50 \<rparr>"

section \<open>Properties\<close>

subsection \<open>Evaluating the examples\<close>

lemma lower_Python: "lower ''Python'' = ''python''"
  by code_simp

lemma lower_AWS: "lower ''AWS'' = ''aws''"
  by code_simp

lemma lower_python: "lower ''python'' = ''python''"
  by code_simp

lemma lower_sql: "lower ''sql'' = ''sql''"
  by code_simp

lemma lower_docker: "lower ''docker'' = ''docker''"
  by code_simp

lemma python_found: "fuzzy_skill_match indel_fuzz ''python'' [''python'', ''aws''] 80"
  by (simp add: indel_fuzz_def indel_ratio_def)

lemma sql_missed: "\<not> fuzzy_skill_match indel_fuzz ''sql'' [''python'', ''aws''] 80"
  by (simp add: indel_fuzz_def window_ratio_def indel_ratio_def pieces_def suffixes_eq_snoc)

lemma docker_missed: "\<not> fuzzy_skill_match indel_fuzz ''docker'' [''python'', ''aws''] 80"
  by (simp add: indel_fuzz_def window_ratio_def indel_ratio_def pieces_def suffixes_eq_snoc)

subsection \<open>Skills score\<close>

lemma match_loop_filter:
  "match_loop fz th rs xs (m, mi) =
     (m @ filter (\<lambda>s. fuzzy_skill_match fz s rs th) xs,
      mi @ filter (\<lambda>s. \<not> fuzzy_skill_match fz s rs th) xs)"
  by (induction xs arbitrary: m mi) auto

lemma match_optional_loop_filter:
  "match_optional_loop fz rs xs m = m @ filter (\<lambda>s. fuzzy_skill_match fz s rs 80) xs"
  by (induction xs arbitrary: m) auto

lemma skills_section_formula:
  "skills_match (skills_section fz res job) = spec_skills_match fz res job"
  by (simp add: skills_section_def match_loop_filter match_optional_loop_filter
        spec_skills_match_def spec_fraction_matched_def filter_map o_def Let_def)

text \<open>
  C4. For every resume and job, \<open>skills_match\<close> is the fraction of the required skills
  that fuzzy-match times 70 plus the fraction of the optional skills that fuzzy-match times
  30, an empty list contributing its full 70 or 30. With no required and no optional skill
  the score is exactly 100. In the scenario (required python and sql, optional docker, resume
  skills Python and AWS), where the fuzzy test finds python and misses sql and docker, the
  score is 35.
\<close>

theorem skills_match_weighted_coverage:
  "skills_match (skills_section fz res job) = spec_skills_match fz res job
   \<and> (required_skills job = [] \<and> optional_skills job = []
        \<longrightarrow> skills_match (skills_section fz res job) = 100)
   \<and> (skills res = [''Python'', ''AWS''] \<and> required_skills job = [''python'', ''sql'']
        \<and> optional_skills job = [''docker'']
        \<and> fuzzy_skill_match fz ''python'' [''python'', ''aws''] 80
        \<and> \<not> fuzzy_skill_match fz ''sql'' [''python'', ''aws''] 80
        \<and> \<not> fuzzy_skill_match fz ''docker'' [''python'', ''aws''] 80
        \<longrightarrow> skills_match (skills_section fz res job) = 35)"
proof (intro conjI impI)
  show "skills_match (skills_section fz res job) = spec_skills_match fz res job"
    by (rule skills_section_formula)
next
  assume "required_skills job = [] \<and> optional_skills job = []"
  then show "skills_match (skills_section fz res job) = 100"
    by (simp add: skills_section_formula spec_skills_match_def)
next
  assume "skills res = [''Python'', ''AWS''] \<and> required_skills job = [''python'', ''sql'']
        \<and> optional_skills job = [''docker'']
        \<and> fuzzy_skill_match fz ''python'' [''python'', ''aws''] 80
        \<and> \<not> fuzzy_skill_match fz ''sql'' [''python'', ''aws''] 80
        \<and> \<not> fuzzy_skill_match fz ''docker'' [''python'', ''aws''] 80"
  then show "skills_match (skills_section fz res job) = 35"
    by (simp add: skills_section_formula spec_skills_match_def spec_fraction_matched_def
          lower_Python lower_AWS lower_python lower_sql lower_docker
          del: fuzzy_skill_match.simps)
qed

theorem skills_match_weighted_coverage_witness:
  "fuzzy_skill_match indel_fuzz ''python'' [''python'', ''aws''] 80
   \<and> \<not> fuzzy_skill_match indel_fuzz ''sql'' [''python'', ''aws''] 80
   \<and> \<not> fuzzy_skill_match indel_fuzz ''docker'' [''python'', ''aws''] 80
   \<and> skills_match (skills_section indel_fuzz scenario_resume scenario_job) = 35
   \<and> skills_match (skills_section indel_fuzz scenario_resume blank_job) = 100"
  using skills_match_weighted_coverage [of indel_fuzz scenario_resume scenario_job]
    skills_match_weighted_coverage [of indel_fuzz scenario_resume blank_job]
    python_found sql_missed docker_missed
  by (simp add: scenario_resume_def scenario_job_def blank_resume_def blank_job_def
        del: fuzzy_skill_match.simps)

lemma fraction_grows:
  fixes m n :: nat
  assumes "m \<le> n" "n \<noteq> 0"
  shows "real m / real n \<le> real (m + 1) / real (n + 1)"
proof -
  have "real m * real (n + 1) \<le> real (m + 1) * real n"
    using assms by (simp add: algebra_simps)
  then show ?thesis
    using assms by (simp add: frac_le_eq divide_simps)
qed

lemma spec_fraction_snoc:
  assumes "fuzzy_skill_match fz (lower s) (map lower (skills res)) 80" "wanted \<noteq> []"
  shows "spec_fraction_matched fz res wanted \<le> spec_fraction_matched fz res (wanted @ [s])"
proof -
  let ?m = "length (filter (\<lambda>s. fuzzy_skill_match fz (lower s) (map lower (skills res)) 80) wanted)"
  have "?m \<le> length wanted"
    by simp
  then have "real ?m / real (length wanted) \<le> real (?m + 1) / real (length wanted + 1)"
    using assms(2) by (intro fraction_grows) simp_all
  then show ?thesis
    using assms(1) by (simp add: spec_fraction_matched_def)
qed

text \<open>
  C9. Appending to the job's required skills a skill that fuzzy-matches one of the
  resume's skills never lowers \<open>skills_match\<close>, also when the job listed no required skill
  before and held the 70 points by default.
\<close>

theorem skills_match_monotone:
  assumes "fuzzy_skill_match fz (lower s) (map lower (skills res)) 80"
  shows "skills_match (skills_section fz res job)
           \<le> skills_match (skills_section fz res
                (job \<lparr> required_skills := required_skills job @ [s] \<rparr>))"
proof (cases "required_skills job = []")
  case True
  then show ?thesis
    using assms
    by (simp add: skills_section_formula spec_skills_match_def spec_fraction_matched_def)
next
  case False
  have "spec_fraction_matched fz res (required_skills job) * 70
          \<le> spec_fraction_matched fz res (required_skills job @ [s]) * 70"
    using spec_fraction_snoc [OF assms False] by (rule mult_right_mono) simp
  then show ?thesis
    using False by (simp add: skills_section_formula spec_skills_match_def)
qed

theorem skills_match_monotone_witness:
  "fuzzy_skill_match indel_fuzz (lower ''python'') (map lower (skills scenario_resume)) 80
   \<and> skills_match (skills_section indel_fuzz scenario_resume scenario_job)
       \<le> skills_match (skills_section indel_fuzz scenario_resume
            (scenario_job \<lparr> required_skills := required_skills scenario_job @ [''python''] \<rparr>))
   \<and> skills_match (skills_section indel_fuzz scenario_resume blank_job)
       \<le> skills_match (skills_section indel_fuzz scenario_resume
            (blank_job \<lparr> required_skills := required_skills blank_job @ [''python''] \<rparr>))"
proof -
  have h: "fuzzy_skill_match indel_fuzz (lower ''python'') (map lower (skills scenario_resume)) 80"
    using python_found
    by (simp add: scenario_resume_def blank_resume_def lower_Python lower_AWS lower_python
          del: fuzzy_skill_match.simps)
  show ?thesis
    using h skills_match_monotone [OF h, of scenario_job] skills_match_monotone [OF h, of blank_job]
    by (simp del: fuzzy_skill_match.simps)
qed

subsection \<open>Education score\<close>

lemma py_in_sublist: "py_in needle hay = sublist needle hay"
  by (induction hay) (simp_all add: sublist_Cons_right)

lemma count_matches_filter:
  "count_matches t reqs n = n + length (filter (\<lambda>r. py_in (lower r) t) reqs)"
  by (induction reqs arbitrary: n) simp_all

lemma education_section_formula:
  "education_section res job =
     (if education_requirements job = [] \<or> education res = [] then 100
      else real (length (spec_education_found res job))
             / real (length (education_requirements job)) * 100)"
  by (simp add: education_section_def match_education_def count_matches_filter py_in_sublist
        spec_education_found_def spec_education_text_def Let_def)

lemma lower_education_examples:
  "lower ''B.Tech'' = ''b.tech''" "lower ''b.tech'' = ''b.tech''"
  "lower ''B.Tech in CS'' = ''b.tech in cs''" "lower ''PhD'' = ''phd''"
  "lower ''Bachelor'' = ''bachelor''"
  by code_simp+

lemma btech_found: "spec_education_found btech_resume btech_or_phd_job = [''b.tech'']"
  by (simp add: spec_education_found_def spec_education_text_def btech_resume_def
        btech_or_phd_job_def blank_resume_def blank_job_def lower_education_examples
        flip: py_in_sublist)

lemma bachelor_not_found: "spec_education_found btech_resume degree_job = []"
  by (simp add: spec_education_found_def spec_education_text_def btech_resume_def degree_job_def
        blank_resume_def blank_job_def lower_education_examples flip: py_in_sublist)

text \<open>
  C5, as the claim states it, fails: a job that lists an education requirement and a resume
  with no education entry score 100, not 0.
\<close>

theorem education_absent_counterexample:
  "education_section blank_resume degree_job = 100"
  by (simp add: education_section_def blank_resume_def degree_job_def blank_job_def)

text \<open>
  C5, amended. \<open>education_match\<close> is 100 when the job lists no education requirement or
  the resume has no education entry. Otherwise it is 100 times the fraction of the job's
  requirements found, lowercased, as a contiguous substring of the space-joined lowercased
  degree and context strings of the resume; in particular it is 0 when none is found.
\<close>

theorem education_match_guarded_fraction:
  "(education_requirements job = [] \<or> education res = [] \<longrightarrow> education_section res job = 100)
   \<and> (education_requirements job \<noteq> [] \<and> education res \<noteq> []
        \<longrightarrow> education_section res job =
              real (length (spec_education_found res job))
                / real (length (education_requirements job)) * 100)
   \<and> (education_requirements job \<noteq> [] \<and> education res \<noteq> [] \<and> spec_education_found res job = []
        \<longrightarrow> education_section res job = 0)"
  by (simp add: education_section_formula)

theorem education_match_guarded_fraction_witness:
  "education_section btech_resume btech_or_phd_job = 50
   \<and> education_section btech_resume degree_job = 0
   \<and> education_section btech_resume blank_job = 100"
  using education_match_guarded_fraction [of btech_or_phd_job btech_resume]
    education_match_guarded_fraction [of degree_job btech_resume]
    education_match_guarded_fraction [of blank_job btech_resume]
    btech_found bachelor_not_found
  by (simp add: btech_resume_def btech_or_phd_job_def degree_job_def blank_resume_def blank_job_def)

subsection \<open>Experience score\<close>

lemma years_extracted: "extract_experience_years ''Developer 2005 - 2020'' = 15"
  by code_simp

lemma five_extracted: "extract_experience_years ''5+ years of experience in Java'' = 5"
  by code_simp

lemma one_extracted: "extract_experience_years ''Experience: 1 year'' = 1"
  by code_simp

lemma empty_extracted: "extract_experience_years [] = 0"
  by code_simp

lemma empty_no_pattern: "first_pattern [pattern1, pattern2, pattern3] [] = None"
  by code_simp

text \<open>
  C8. Let \<open>mn\<close> be the job's \<open>min_experience\<close> (0 when absent), \<open>mx\<close> its
  \<open>max_experience\<close>, which defaults to \<open>mn + 10\<close> when absent, and \<open>y\<close> the years
  extracted from the resume's text, with \<open>0 \<le> mn \<le> mx\<close> as the data model has it. Then
  \<open>experience_match\<close> is 100 when \<open>y\<close> lies within \<open>[mn, mx]\<close>, 80 when \<open>y\<close>
  exceeds \<open>mx\<close>, \<open>y / mn * 100\<close> when \<open>y\<close> is below a positive \<open>mn\<close>, and 100 in
  the remaining case, below a minimum that is 0. A resume with no experience text (no
  pattern matches and fewer than two year mentions) scores exactly 100 against a job with
  \<open>min_experience = 0\<close>.
\<close>

theorem experience_match_tiers:
  assumes "mn = (case min_experience job of Some m \<Rightarrow> m | None \<Rightarrow> 0)"
    and "mx = (case max_experience job of Some m \<Rightarrow> m | None \<Rightarrow> mn + 10)"
    and "y = extract_experience_years (raw_text res)"
    and "0 \<le> mn" and "mn \<le> mx"
  shows "experience_match (experience_section res job)
           = (if mn \<le> y \<and> y \<le> mx then 100
              else if mx < y then 80
              else if 0 < mn then real_of_int y / real_of_int mn * 100
              else 100)
       \<and> (mn \<le> y \<and> y \<le> mx \<longrightarrow> experience_match (experience_section res job) = 100)
       \<and> (mx < y \<longrightarrow> experience_match (experience_section res job) = 80)
       \<and> (y < mn \<and> 0 < mn
            \<longrightarrow> experience_match (experience_section res job)
                  = real_of_int y / real_of_int mn * 100)
       \<and> (mn = 0 \<and> first_pattern [pattern1, pattern2, pattern3] (raw_text res) = None
            \<and> length (year_mentions (raw_text res)) < 2
            \<longrightarrow> experience_match (experience_section res job) = 100)
       \<and> required_experience (experience_section res job) = (mn, mx)
       \<and> (max_experience job = None
            \<longrightarrow> snd (required_experience (experience_section res job)) = mn + 10)"
  using assms
  by (auto simp add: experience_section_def extract_experience_years_def Let_def
        split: option.splits)

theorem experience_match_tiers_witness:
  "experience_match (experience_section five_years_resume senior_job) = 100
   \<and> experience_match (experience_section years_resume senior_job) = 80
   \<and> experience_match (experience_section one_year_resume senior_job) = 25
   \<and> experience_match (experience_section years_resume junior_job) = 80
   \<and> experience_match (experience_section blank_resume junior_job) = 100
   \<and> experience_match (experience_section blank_resume capped_junior_job) = 100
   \<and> required_experience (experience_section blank_resume junior_job) = (0, 10)"
  using experience_match_tiers [where res = five_years_resume and job = senior_job, OF refl refl refl]
    experience_match_tiers [where res = years_resume and job = senior_job, OF refl refl refl]
    experience_match_tiers [where res = one_year_resume and job = senior_job, OF refl refl refl]
    experience_match_tiers [where res = years_resume and job = junior_job, OF refl refl refl]
    experience_match_tiers [where res = blank_resume and job = junior_job, OF refl refl refl]
    experience_match_tiers [where res = blank_resume and job = capped_junior_job, OF refl refl refl]
    empty_no_pattern
  by (simp add: five_years_resume_def years_resume_def one_year_resume_def senior_job_def
        junior_job_def capped_junior_job_def blank_resume_def blank_job_def years_extracted
        five_extracted one_extracted empty_extracted)

subsection \<open>Embedding similarity\<close>

lemma norm_unit: "vec_norm [1, 0] = 1" "vec_norm [-1, 0] = 1" "vec_norm [1] = 1"
  by (simp_all add: vec_norm_def)

lemma calculate_similarity_zero_norm:
  assumes "vec_norm v1 = 0 \<or> vec_norm v2 = 0"
  shows "calculate_similarity v1 v2 = Inr 0"
  using assms by (auto simp add: calculate_similarity_def)

text \<open>
  C6. The claim says the similarity lies in [0, 100] and that the call never raises. On
  the opposite unit vectors \<open>[1, 0]\<close> and \<open>[-1, 0]\<close> the code returns -100, and on the
  vectors \<open>[1, 0]\<close> and \<open>[1]\<close> of different lengths the dot product raises.
\<close>

theorem calculate_similarity_negative:
  "calculate_similarity [1, 0] [-1, 0] = Inr (-100)
   \<and> calculate_similarity [1, 0] [1] = Inl ValueError"
  by (simp add: calculate_similarity_def norm_unit np_dot_def)

subsection \<open>Vector index\<close>

text \<open>
  C7. The claim says the index and the metadata map of a namespace always have the same
  size and that a failed insert triggers a rebuild of the index from the metadata. Storing
  the same record id twice in an empty namespace leaves two vectors in the index and one
  entry in the metadata map; the rebuild returns the index as it was; and a store whose first
  insertion fails ends as the store without the failure, nothing having been rebuilt.
\<close>

theorem store_twice_breaks_invariant:
  "ntotal (resume_index (fst (store_resume_embedding enc str_to_id False False
       (fst (store_resume_embedding enc str_to_id False False empty_store rid text md))
       rid text md))) = 2
   \<and> length (resume_meta (fst (store_resume_embedding enc str_to_id False False
       (fst (store_resume_embedding enc str_to_id False False empty_store rid text md))
       rid text md))) = 1
   \<and> rebuild_index_from_meta idx m = idx
   \<and> store_resume_embedding enc str_to_id True False st rid text md
       = store_resume_embedding enc str_to_id False False st rid text md"
  by (simp add: store_resume_embedding_def add_with_ids_def rebuild_index_from_meta_def
        empty_store_def ntotal_def Let_def)

subsection \<open>Score fusion\<close>

lemma hard_match_unconstrained:
  assumes "required_skills job = []" "optional_skills job = []" "education_requirements job = []"
    "certifications_required job = []" "min_experience job = None" "max_experience job = None"
    "raw_text res = []"
  shows "overall_hard_match (calculate_hard_match fz res job) = 100"
  using assms
  by (simp add: calculate_hard_match_def skills_section_def experience_section_def
      education_section_def certification_section_def empty_extracted Let_def)

lemma norm_examples:
  "vec_norm [7, 9, 3, 2, 1] = 12" "vec_norm [1, 0, 0, 0, 0] = 1" "vec_norm [4872, 6785] = 8353"
proof -
  have "sqrt (12\<^sup>2) = 12" "sqrt (8353\<^sup>2) = 8353"
    by simp_all
  then show "vec_norm [7, 9, 3, 2, 1] = 12" "vec_norm [1, 0, 0, 0, 0] = 1"
    "vec_norm [4872, 6785] = 8353"
    by (simp_all add: vec_norm_def)
qed

lemma combine_clamp:
  "combine cfg h s = spec_clamp (h * HARD_MATCH_WEIGHT cfg + s * SOFT_MATCH_WEIGHT cfg) 0 100"
  by (simp add: combine_def spec_clamp_def Let_def max_def min_def)

lemma combine_bounds: "0 \<le> combine cfg h s" "combine cfg h s \<le> 100"
  by (simp_all add: combine_def Let_def)

lemma round_half_even_bounds:
  assumes "0 \<le> x" "x \<le> real_of_int n"
  shows "0 \<le> round_half_even x" "round_half_even x \<le> n"
proof -
  have f0: "0 \<le> \<lfloor>x\<rfloor>" using assms(1) by simp
  have fn: "\<lfloor>x\<rfloor> \<le> n" using assms(2) by (simp add: floor_le_iff)
  show "0 \<le> round_half_even x"
    using f0 by (simp add: round_half_even_def Let_def)
  show "round_half_even x \<le> n"
  proof (cases "\<lfloor>x\<rfloor> = n")
    case True
    then have "real_of_int n \<le> x"
      using of_int_floor_le [of x] by simp
    then have "x = real_of_int n"
      using assms(2) by simp
    then show ?thesis
      by (simp add: round_half_even_def Let_def)
  next
    case False
    then have "\<lfloor>x\<rfloor> + 1 \<le> n"
      using fn by simp
    then show ?thesis
      using fn by (simp add: round_half_even_def Let_def)
  qed
qed

lemma round2_bounds:
  assumes "0 \<le> x" "x \<le> 100"
  shows "0 \<le> round2 x" "round2 x \<le> 100"
proof -
  have "0 \<le> x * 100" "x * 100 \<le> real_of_int 10000"
    using assms by simp_all
  then have "0 \<le> round_half_even (x * 100)" "round_half_even (x * 100) \<le> 10000"
    by (rule round_half_even_bounds)+
  then show "0 \<le> round2 x" "round2 x \<le> 100"
    by (simp_all add: round2_def)
qed

lemma round2_near_75:
  assumes "74.995 \<le> x" "x < 75"
  shows "round2 x = 75"
proof -
  have fl: "\<lfloor>x * 100\<rfloor> = 7499"
    using assms by (simp add: floor_eq_iff)
  have "1 / 2 \<le> x * 100 - 7499"
    using assms by simp
  then have "round_half_even (x * 100) = 7500"
    by (simp add: round_half_even_def fl Let_def)
  then show ?thesis
    by (simp add: round2_def)
qed

lemma evaluate_resume_Inr:
  "evaluate_resume enc fz cfg res job = Inr ev \<Longrightarrow>
     \<exists>soft. soft_score_of enc res job = Inr soft
       \<and> relevance_score ev = round2 (combine cfg (overall_hard_match (calculate_hard_match fz res job)) soft)
       \<and> soft_match_score ev = round2 soft
       \<and> hard_match_score ev = round2 (overall_hard_match (calculate_hard_match fz res job))
       \<and> ev_verdict ev = determine_verdict cfg (combine cfg (overall_hard_match (calculate_hard_match fz res job)) soft)"
  by (auto simp add: evaluate_resume_def Let_def split: sum.splits)

lemma soft_aligned: "soft_score_of enc aligned_resume aligned_job = Inr 100"
  by (simp add: soft_score_of_def embedding_or_generate_def aligned_resume_def aligned_job_def
      blank_resume_def blank_job_def calculate_similarity_def norm_unit np_dot_def)

lemma soft_boundary: "soft_score_of enc boundary_resume axis_job = Inr (175 / 3)"
  by (simp add: soft_score_of_def embedding_or_generate_def boundary_resume_def axis_job_def
      blank_resume_def blank_job_def calculate_similarity_def norm_examples np_dot_def)

lemma soft_near: "soft_score_of enc near_resume aligned_job = Inr (487200 / 8353)"
  by (simp add: soft_score_of_def embedding_or_generate_def near_resume_def aligned_job_def
      blank_resume_def blank_job_def calculate_similarity_def norm_examples norm_unit np_dot_def)

lemma evaluate_returns:
  "soft_score_of enc res job = Inr s \<Longrightarrow> \<exists>ev. evaluate_resume enc fz cfg res job = Inr ev"
  by (simp add: evaluate_resume_def Let_def)

lemma similarity_is_embedding_subscore:
  assumes "length e1 = length e2"
  shows "\<exists>sm. calculate_soft_match tfidf rt jt (Some e1) (Some e2) = Inr sm
            \<and> calculate_similarity e1 e2 = Inr (embedding_similarity sm)"
  using assms
  by (simp add: calculate_soft_match_def cosine_similarity_def calculate_similarity_def
        np_dot_def Let_def)

lemma round2_100: "round2 100 = 100" "round2 20 = 20"
  by (simp_all add: round2_def round_half_even_def)

lemma blank_unconstrained:
  "overall_hard_match (calculate_hard_match fz (blank_resume \<lparr> embeddings := e \<rparr>)
     (blank_job \<lparr> job_embeddings := e' \<rparr>)) = 100"
  by (rule hard_match_unconstrained) (simp_all add: blank_resume_def blank_job_def)

text \<open>
  C1, as the claim states it, fails: for a resume and a job with empty texts and the same
  unit embedding, the soft score of the evaluation is 100, while the soft-match scorer's
  \<open>overall_soft_match\<close> on the same texts and embeddings is 50.
\<close>

theorem soft_score_counterexample:
  "map_sum id soft_match_score
     (evaluate_resume unit_encoder indel_fuzz default_config aligned_resume aligned_job) = Inr 100
   \<and> map_sum id overall_soft_match
       (calculate_soft_match tfidf_raises (processed_text aligned_resume)
          (job_processed_text aligned_job) (embeddings aligned_resume) (job_embeddings aligned_job))
     = Inr 50"
proof
  show "map_sum id soft_match_score
     (evaluate_resume unit_encoder indel_fuzz default_config aligned_resume aligned_job) = Inr 100"
    by (simp add: evaluate_resume_def soft_aligned round2_100 Let_def)
next
  have kw: "extract_keywords [] 20 = []"
    by (simp add: extract_keywords_def py_split_def lower_def)
  show "map_sum id overall_soft_match
       (calculate_soft_match tfidf_raises (processed_text aligned_resume)
          (job_processed_text aligned_job) (embeddings aligned_resume) (job_embeddings aligned_job))
     = Inr 50"
    by (simp add: calculate_soft_match_def tfidf_raises_def aligned_resume_def aligned_job_def
          blank_resume_def blank_job_def cosine_similarity_def np_dot_def norm_unit kw Let_def)
qed

text \<open>
  C1, amended. The soft score that the fusion engine combines is the embedding service's
  similarity (cosine times 100) of the resume's and the job's embeddings, an absent or empty
  embedding being generated from the processed text; the evaluation stores it rounded to two
  decimals. For embeddings of equal length it is the soft-match scorer's
  \<open>embedding_similarity\<close> sub-score alone: TF-IDF similarity and keyword density do not
  enter.
\<close>

theorem soft_score_is_embedding_similarity:
  "(evaluate_resume enc fz cfg res job = Inr ev \<longrightarrow>
      (\<exists>soft. calculate_similarity
                 (embedding_or_generate enc (embeddings res) (processed_text res))
                 (embedding_or_generate enc (job_embeddings job) (job_processed_text job)) = Inr soft
         \<and> soft_match_score ev = round2 soft
         \<and> relevance_score ev
             = round2 (combine cfg (overall_hard_match (calculate_hard_match fz res job)) soft)))
   \<and> (length e1 = length e2 \<longrightarrow>
        (\<exists>sm. calculate_soft_match tfidf rt jt (Some e1) (Some e2) = Inr sm
           \<and> calculate_similarity e1 e2 = Inr (embedding_similarity sm)))"
proof (intro conjI impI)
  assume "evaluate_resume enc fz cfg res job = Inr ev"
  from evaluate_resume_Inr [OF this]
  show "\<exists>soft. calculate_similarity
                 (embedding_or_generate enc (embeddings res) (processed_text res))
                 (embedding_or_generate enc (job_embeddings job) (job_processed_text job)) = Inr soft
         \<and> soft_match_score ev = round2 soft
         \<and> relevance_score ev
             = round2 (combine cfg (overall_hard_match (calculate_hard_match fz res job)) soft)"
    by (auto simp add: soft_score_of_def Let_def)
next
  assume "length e1 = length e2"
  then show "\<exists>sm. calculate_soft_match tfidf rt jt (Some e1) (Some e2) = Inr sm
           \<and> calculate_similarity e1 e2 = Inr (embedding_similarity sm)"
    by (rule similarity_is_embedding_subscore)
qed

theorem soft_score_is_embedding_similarity_witness:
  "map_sum id soft_match_score
     (evaluate_resume unit_encoder indel_fuzz default_config aligned_resume aligned_job) = Inr 100
   \<and> calculate_similarity [1, 0] [1, 0] = Inr 100
   \<and> map_sum id embedding_similarity
       (calculate_soft_match tfidf_raises [] [] (Some [1, 0]) (Some [1, 0])) = Inr 100"
proof -
  obtain ev where ev: "evaluate_resume unit_encoder indel_fuzz default_config aligned_resume aligned_job = Inr ev"
    using evaluate_returns [OF soft_aligned] by blast
  have emb: "embedding_or_generate unit_encoder (embeddings aligned_resume) (processed_text aligned_resume) = [1, 0]"
    "embedding_or_generate unit_encoder (job_embeddings aligned_job) (job_processed_text aligned_job) = [1, 0]"
    by (simp_all add: embedding_or_generate_def aligned_resume_def aligned_job_def blank_resume_def blank_job_def)
  have sim: "calculate_similarity [1, 0] [1, 0] = Inr 100"
    by (simp add: calculate_similarity_def norm_unit np_dot_def)
  have "soft_match_score ev = 100"
    using soft_score_is_embedding_similarity
      [of unit_encoder indel_fuzz default_config aligned_resume aligned_job ev] ev
    by (simp add: emb sim round2_100)
  moreover have "map_sum id embedding_similarity
       (calculate_soft_match tfidf_raises [] [] (Some [1, 0]) (Some [1, 0])) = Inr 100"
    using soft_score_is_embedding_similarity
      [of unit_encoder indel_fuzz default_config aligned_resume aligned_job ev "[1, 0]" "[1, 0]"
          tfidf_raises "[]" "[]"]
    by (auto simp add: sim)
  ultimately show ?thesis
    using ev sim by simp
qed

lemma combine_examples:
  "combine default_config 100 100 = 100" "combine light_config 100 100 = 20"
  "combine default_config 100 (175 / 3) = 75"
  "combine default_config 100 (487200 / 8353) = 626440 / 8353"
  by (simp_all add: combine_def default_config_def light_config_def Let_def)

lemma soft_match_aligned:
  "map_sum id overall_soft_match
     (calculate_soft_match tfidf_raises (processed_text aligned_resume)
        (job_processed_text aligned_job) (embeddings aligned_resume) (job_embeddings aligned_job))
   = Inr 50"
proof -
  have kw: "extract_keywords [] 20 = []"
    by (simp add: extract_keywords_def py_split_def lower_def)
  show ?thesis
    by (simp add: calculate_soft_match_def tfidf_raises_def aligned_resume_def aligned_job_def
          blank_resume_def blank_job_def cosine_similarity_def np_dot_def norm_unit kw Let_def)
qed

lemma clamp_examples:
  "spec_clamp (100 * HARD_MATCH_WEIGHT default_config
               + 487200 / 8353 * SOFT_MATCH_WEIGHT default_config) 0 100 = 626440 / 8353"
  "spec_clamp (100 * HARD_MATCH_WEIGHT default_config
               + 50 * SOFT_MATCH_WEIGHT default_config) 0 100 = 70"
  "spec_clamp (100 * HARD_MATCH_WEIGHT default_config
               + 100 * SOFT_MATCH_WEIGHT default_config) 0 100 = 100"
  "spec_clamp (100 * HARD_MATCH_WEIGHT light_config
               + 100 * SOFT_MATCH_WEIGHT light_config) 0 100 = 20"
  by (simp_all add: spec_clamp_def default_config_def light_config_def)

lemma round2_near_example: "round2 (626440 / 8353) = 75"
  by (rule round2_near_75) simp_all

text \<open>
  C2, as the claim states it, fails. For the resume with embedding \<open>[4872, 6785]\<close> and the
  unconstrained job with embedding \<open>[1, 0]\<close> the hard score is 100 and the soft score
  487200/8353, so the clamp is 626440/8353 (about 74.9958), while the evaluation's
  \<open>relevance_score\<close> is 75: the field is rounded. And for the resume and job with the same
  unit embedding and empty texts the soft-match scorer's \<open>overall_soft_match\<close> is 50, which
  would give a clamp of 70, while the evaluation's \<open>relevance_score\<close> is 100: the soft
  score combined is the embedding similarity.
\<close>

theorem relevance_field_counterexample:
  "map_sum id relevance_score
     (evaluate_resume unit_encoder indel_fuzz default_config near_resume aligned_job) = Inr 75
   \<and> soft_score_of unit_encoder near_resume aligned_job = Inr (487200 / 8353)
   \<and> spec_clamp
         (overall_hard_match (calculate_hard_match indel_fuzz near_resume aligned_job)
            * HARD_MATCH_WEIGHT default_config
          + 487200 / 8353 * SOFT_MATCH_WEIGHT default_config) 0 100 = 626440 / 8353
   \<and> (626440 / 8353 :: real) < 75
   \<and> map_sum id relevance_score
         (evaluate_resume unit_encoder indel_fuzz default_config aligned_resume aligned_job)
       = Inr 100
   \<and> map_sum id overall_soft_match
         (calculate_soft_match tfidf_raises (processed_text aligned_resume)
            (job_processed_text aligned_job) (embeddings aligned_resume)
            (job_embeddings aligned_job))
       = Inr 50
   \<and> spec_clamp
         (overall_hard_match (calculate_hard_match indel_fuzz aligned_resume aligned_job)
            * HARD_MATCH_WEIGHT default_config
          + 50 * SOFT_MATCH_WEIGHT default_config) 0 100 = 70"
proof -
  have hard_near:
    "overall_hard_match (calculate_hard_match indel_fuzz near_resume aligned_job) = 100"
    unfolding near_resume_def aligned_job_def by (rule blank_unconstrained)
  have hard_aligned:
    "overall_hard_match (calculate_hard_match indel_fuzz aligned_resume aligned_job) = 100"
    unfolding aligned_resume_def aligned_job_def by (rule blank_unconstrained)
  have field_near: "map_sum id relevance_score
     (evaluate_resume unit_encoder indel_fuzz default_config near_resume aligned_job) = Inr 75"
    by (simp add: evaluate_resume_def soft_near hard_near combine_examples round2_near_example
          Let_def)
  have field_aligned: "map_sum id relevance_score
     (evaluate_resume unit_encoder indel_fuzz default_config aligned_resume aligned_job) = Inr 100"
    by (simp add: evaluate_resume_def soft_aligned hard_aligned combine_examples round2_100
          Let_def)
  have less: "(626440 / 8353 :: real) < 75"
    by simp
  show ?thesis
    unfolding hard_near hard_aligned clamp_examples
    using field_near field_aligned less soft_near soft_match_aligned
    by (intro conjI) (rule refl | assumption)+
qed

text \<open>
  C2, amended. Whenever the evaluation returns, its \<open>relevance_score\<close> is
  \<open>clamp(hard_overall * w_hard + soft * w_soft, 0, 100)\<close> rounded to two decimals, where
  \<open>soft\<close> is the soft score the engine uses, the embedding similarity of the resume and
  the job, and the weights are the configured ones (0.4 and 0.6 by default), used as they
  are, not renormalised. The clamp lies between 0 and 100, and so does \<open>relevance_score\<close>.
\<close>

theorem relevance_score_rounded_clamp:
  "(evaluate_resume enc fz cfg res job = Inr ev \<longrightarrow>
      (\<exists>s. soft_score_of enc res job = Inr s
         \<and> relevance_score ev
             = round2 (spec_clamp
                 (overall_hard_match (calculate_hard_match fz res job) * HARD_MATCH_WEIGHT cfg
                  + s * SOFT_MATCH_WEIGHT cfg) 0 100))
      \<and> 0 \<le> relevance_score ev \<and> relevance_score ev \<le> 100)
   \<and> 0 \<le> spec_clamp x 0 100 \<and> spec_clamp x 0 100 \<le> 100
   \<and> HARD_MATCH_WEIGHT default_config = 0.4 \<and> SOFT_MATCH_WEIGHT default_config = 0.6"
proof (intro conjI impI)
  assume "evaluate_resume enc fz cfg res job = Inr ev"
  from evaluate_resume_Inr [OF this] obtain s where
    s: "soft_score_of enc res job = Inr s"
      "relevance_score ev
         = round2 (combine cfg (overall_hard_match (calculate_hard_match fz res job)) s)"
    by blast
  from s(2) have "relevance_score ev
             = round2 (spec_clamp
                 (overall_hard_match (calculate_hard_match fz res job) * HARD_MATCH_WEIGHT cfg
                  + s * SOFT_MATCH_WEIGHT cfg) 0 100)"
    by (simp only: combine_clamp)
  with s(1) show "\<exists>s. soft_score_of enc res job = Inr s
         \<and> relevance_score ev
             = round2 (spec_clamp
                 (overall_hard_match (calculate_hard_match fz res job) * HARD_MATCH_WEIGHT cfg
                  + s * SOFT_MATCH_WEIGHT cfg) 0 100)"
    by blast
  show "0 \<le> relevance_score ev" "relevance_score ev \<le> 100"
    using s(2) round2_bounds [OF combine_bounds] by simp_all
qed (simp_all add: spec_clamp_def default_config_def)

theorem relevance_score_rounded_clamp_witness:
  "map_sum id relevance_score
     (evaluate_resume unit_encoder indel_fuzz default_config aligned_resume aligned_job) = Inr 100
   \<and> map_sum id relevance_score
       (evaluate_resume unit_encoder indel_fuzz light_config aligned_resume aligned_job) = Inr 20"
proof -
  have hard: "overall_hard_match (calculate_hard_match indel_fuzz aligned_resume aligned_job) = 100"
    unfolding aligned_resume_def aligned_job_def by (rule blank_unconstrained)
  obtain ev where ev:
    "evaluate_resume unit_encoder indel_fuzz default_config aligned_resume aligned_job = Inr ev"
    using evaluate_returns [OF soft_aligned] by blast
  obtain ev' where ev':
    "evaluate_resume unit_encoder indel_fuzz light_config aligned_resume aligned_job = Inr ev'"
    using evaluate_returns [OF soft_aligned] by blast
  have "evaluate_resume unit_encoder indel_fuzz default_config aligned_resume aligned_job = Inr ev
          \<longrightarrow> (\<exists>s. soft_score_of unit_encoder aligned_resume aligned_job = Inr s
           \<and> relevance_score ev
               = round2 (spec_clamp
                   (overall_hard_match (calculate_hard_match indel_fuzz aligned_resume aligned_job)
                      * HARD_MATCH_WEIGHT default_config
                    + s * SOFT_MATCH_WEIGHT default_config) 0 100))"
    using relevance_score_rounded_clamp
      [of unit_encoder indel_fuzz default_config aligned_resume aligned_job ev 0]
    by blast
  with ev have "relevance_score ev = 100"
    by (auto simp add: soft_aligned hard clamp_examples round2_100)
  moreover
  have "evaluate_resume unit_encoder indel_fuzz light_config aligned_resume aligned_job = Inr ev'
          \<longrightarrow> (\<exists>s. soft_score_of unit_encoder aligned_resume aligned_job = Inr s
           \<and> relevance_score ev'
               = round2 (spec_clamp
                   (overall_hard_match (calculate_hard_match indel_fuzz aligned_resume aligned_job)
                      * HARD_MATCH_WEIGHT light_config
                    + s * SOFT_MATCH_WEIGHT light_config) 0 100))"
    using relevance_score_rounded_clamp
      [of unit_encoder indel_fuzz light_config aligned_resume aligned_job ev' 0]
    by blast
  with ev' have "relevance_score ev' = 20"
    by (auto simp add: soft_aligned hard clamp_examples round2_100)
  ultimately show ?thesis
    using ev ev' by simp
qed

text \<open>
  C3. The verdict is HIGH when the relevance score is at least the HIGH threshold, else
  MEDIUM when it is at least the MEDIUM threshold, else LOW. With the default thresholds 75
  gives HIGH, 74.999 gives MEDIUM, 50 gives MEDIUM and 49.999 gives LOW; a score equal to a
  threshold always falls into the higher tier.
\<close>

theorem verdict_tiers:
  "determine_verdict default_config 75 = HIGH
   \<and> determine_verdict default_config 74.999 = MEDIUM
   \<and> determine_verdict default_config 50 = MEDIUM
   \<and> determine_verdict default_config 49.999 = LOW
   \<and> determine_verdict cfg (HIGH_THRESHOLD cfg) = HIGH
   \<and> determine_verdict cfg (MEDIUM_THRESHOLD cfg) \<noteq> LOW
   \<and> (determine_verdict cfg x = HIGH) = (HIGH_THRESHOLD cfg \<le> x)
   \<and> (determine_verdict cfg x = MEDIUM) = (x < HIGH_THRESHOLD cfg \<and> MEDIUM_THRESHOLD cfg \<le> x)
   \<and> (determine_verdict cfg x = LOW) = (x < HIGH_THRESHOLD cfg \<and> x < MEDIUM_THRESHOLD cfg)
   \<and> (evaluate_resume enc fz cfg res job = Inr ev \<longrightarrow>
        (\<exists>s. soft_score_of enc res job = Inr s
           \<and> ev_verdict ev
               = determine_verdict cfg
                   (combine cfg (overall_hard_match (calculate_hard_match fz res job)) s)))"
proof (intro conjI impI)
  assume "evaluate_resume enc fz cfg res job = Inr ev"
  from evaluate_resume_Inr [OF this]
  show "\<exists>s. soft_score_of enc res job = Inr s
           \<and> ev_verdict ev
               = determine_verdict cfg
                   (combine cfg (overall_hard_match (calculate_hard_match fz res job)) s)"
    by blast
qed (simp_all add: determine_verdict_def default_config_def)

theorem verdict_tiers_witness:
  "combine default_config 100 (175 / 3) = 75
   \<and> map_sum id ev_verdict
       (evaluate_resume unit_encoder indel_fuzz default_config boundary_resume axis_job) = Inr HIGH"
proof -
  have hard: "overall_hard_match (calculate_hard_match indel_fuzz boundary_resume axis_job) = 100"
    unfolding boundary_resume_def axis_job_def by (rule blank_unconstrained)
  obtain ev where ev:
    "evaluate_resume unit_encoder indel_fuzz default_config boundary_resume axis_job = Inr ev"
    using evaluate_returns [OF soft_boundary] by blast
  have "evaluate_resume unit_encoder indel_fuzz default_config boundary_resume axis_job = Inr ev
          \<longrightarrow> (\<exists>s. soft_score_of unit_encoder boundary_resume axis_job = Inr s
           \<and> ev_verdict ev
               = determine_verdict default_config
                   (combine default_config
                      (overall_hard_match (calculate_hard_match indel_fuzz boundary_resume axis_job)) s))"
    using verdict_tiers [of default_config 0 unit_encoder indel_fuzz boundary_resume axis_job ev]
    by blast
  with ev obtain s where s: "soft_score_of unit_encoder boundary_resume axis_job = Inr s"
    and v: "ev_verdict ev = determine_verdict default_config
              (combine default_config
                 (overall_hard_match (calculate_hard_match indel_fuzz boundary_resume axis_job)) s)"
    by blast
  from s have "Inr s = (Inr (175 / 3) :: error + real)"
    by (simp only: soft_boundary)
  then have s_eq: "s = 175 / 3"
    by (simp only: sum.inject)
  have "ev_verdict ev = determine_verdict default_config 75"
    using v unfolding s_eq hard combine_examples .
  then have "ev_verdict ev = HIGH"
    by (simp add: determine_verdict_def default_config_def)
  then show ?thesis
    using ev by (simp add: combine_examples)
qed

text \<open>
  C10. The verdict of an evaluation is computed from the clamped relevance score before
  rounding, while the \<open>relevance_score\<close> field holds that score rounded to two decimals.
  Every score in [74.995, 75) is stored as 75, which is in the HIGH tier, with the verdict
  MEDIUM under the default thresholds; the resume with embedding \<open>[4872, 6785]\<close> against
  the unconstrained job with embedding \<open>[1, 0]\<close> is such an input.
\<close>

theorem verdict_from_unrounded_score:
  "(evaluate_resume enc fz cfg res job = Inr ev \<longrightarrow>
      (\<exists>s. soft_score_of enc res job = Inr s
         \<and> ev_verdict ev
             = determine_verdict cfg
                 (combine cfg (overall_hard_match (calculate_hard_match fz res job)) s)
         \<and> relevance_score ev
             = round2 (combine cfg (overall_hard_match (calculate_hard_match fz res job)) s)))
   \<and> (74.995 \<le> x \<and> x < 75 \<longrightarrow>
        round2 x = 75 \<and> determine_verdict default_config x = MEDIUM
        \<and> determine_verdict default_config (round2 x) = HIGH)
   \<and> map_sum id (\<lambda>ev. (relevance_score ev, ev_verdict ev))
       (evaluate_resume enc fz default_config near_resume aligned_job) = Inr (75, MEDIUM)"
proof (intro conjI impI)
  assume "evaluate_resume enc fz cfg res job = Inr ev"
  from evaluate_resume_Inr [OF this]
  show "\<exists>s. soft_score_of enc res job = Inr s
         \<and> ev_verdict ev
             = determine_verdict cfg
                 (combine cfg (overall_hard_match (calculate_hard_match fz res job)) s)
         \<and> relevance_score ev
             = round2 (combine cfg (overall_hard_match (calculate_hard_match fz res job)) s)"
    by blast
next
  assume x: "74.995 \<le> x \<and> x < 75"
  then show "round2 x = 75"
    by (simp add: round2_near_75)
  show "determine_verdict default_config x = MEDIUM"
    using x by (simp add: determine_verdict_def default_config_def)
  show "determine_verdict default_config (round2 x) = HIGH"
    using x by (simp add: round2_near_75 determine_verdict_def default_config_def)
next
  have hard: "overall_hard_match (calculate_hard_match fz near_resume aligned_job) = 100"
    unfolding near_resume_def aligned_job_def by (rule blank_unconstrained)
  have r: "round2 (626440 / 8353) = 75"
    by (rule round2_near_75) simp_all
  have v: "determine_verdict default_config (626440 / 8353) = MEDIUM"
    by (simp add: determine_verdict_def default_config_def)
  show "map_sum id (\<lambda>ev. (relevance_score ev, ev_verdict ev))
       (evaluate_resume enc fz default_config near_resume aligned_job) = Inr (75, MEDIUM)"
    by (simp add: evaluate_resume_def soft_near hard combine_examples r v Let_def)
qed

theorem verdict_from_unrounded_score_witness:
  "round2 74.996 = 75 \<and> determine_verdict default_config 74.996 = MEDIUM
   \<and> determine_verdict default_config (round2 74.996) = HIGH
   \<and> map_sum id (\<lambda>ev. (relevance_score ev, ev_verdict ev))
       (evaluate_resume unit_encoder indel_fuzz default_config near_resume aligned_job)
     = Inr (75, MEDIUM)"
proof -
  have x: "(74.995::real) \<le> 74.996 \<and> (74.996::real) < 75"
    by simp
  have all: "(74.995 \<le> (74.996::real) \<and> (74.996::real) < 75 \<longrightarrow>
        round2 74.996 = 75 \<and> determine_verdict default_config 74.996 = MEDIUM
        \<and> determine_verdict default_config (round2 74.996) = HIGH)
     \<and> map_sum id (\<lambda>ev. (relevance_score ev, ev_verdict ev))
       (evaluate_resume unit_encoder indel_fuzz default_config near_resume aligned_job)
       = Inr (75, MEDIUM)"
    using verdict_from_unrounded_score [of unit_encoder indel_fuzz default_config near_resume
      aligned_job _ "74.996"]
    by blast
  then show ?thesis
    using x by blast
qed

end
